theory Spec2Isabelle
  imports Complex_Main "HOL-Library.Finite_Map"
begin

section \<open>Data model\<close>

text \<open>
  Python values that travel through the services: the weather payload is a JSON-like
  dictionary. Dictionaries are finite maps, so that HOL equality is Python's \<open>==\<close>
  on them (insertion order is irrelevant).
\<close>

datatype pyval =
    PNone
  | PBool bool
  | PInt int
  | PStr string
  | PList "pyval list"
  | PDict "(string, pyval) fmap"

text \<open>Truth value of a Python object in a condition (\<open>if x:\<close>).\<close>

fun truthy :: "pyval \<Rightarrow> bool" where
  "truthy PNone = False"
| "truthy (PBool b) = b"
| "truthy (PInt n) = (n \<noteq> 0)"
| "truthy (PStr s) = (s \<noteq> [])"
| "truthy (PList xs) = (xs \<noteq> [])"
| "truthy (PDict m) = (m \<noteq> fmempty)"

text \<open>\<open>Optional[Dict]\<close>: \<open>None\<close> is falsy, otherwise the dictionary decides.\<close>

fun truthy_opt :: "pyval option \<Rightarrow> bool" where
  "truthy_opt None = False"
| "truthy_opt (Some v) = truthy v"

datatype error = Error string

text \<open>\<open>subway_service.TrainArrival\<close> (a dataclass).\<close>

record TrainArrival =
  minutes_until_arrival :: int
  arrival_time :: string
  train_id :: string
  route_id :: string

text \<open>\<open>TrainArrival.__eq__\<close>: only the minutes and the train id take part.\<close>

definition ta_eq :: "TrainArrival \<Rightarrow> TrainArrival \<Rightarrow> bool" where
  "ta_eq a b \<longleftrightarrow>
     minutes_until_arrival a = minutes_until_arrival b \<and> train_id a = train_id b"

text \<open>
  \<open>prev != curr\<close> on \<open>Optional[TrainArrival]\<close>: two \<open>None\<close> are equal, an
  object and \<open>None\<close> differ (\<open>__eq__\<close> answers \<open>False\<close> for a non-TrainArrival),
  two objects are compared with \<open>__eq__\<close>.
\<close>

fun opt_ne :: "TrainArrival option \<Rightarrow> TrainArrival option \<Rightarrow> bool" where
  "opt_ne None None = False"
| "opt_ne (Some a) (Some b) = (\<not> ta_eq a b)"
| "opt_ne _ _ = True"

type_synonym top_two = "TrainArrival option \<times> TrainArrival option"

section \<open>display.py: the hardware displays\<close>

text \<open>A bounding box \<open>(left, upper, right, lower)\<close>, as PIL's \<open>getbbox\<close> returns it.\<close>

type_synonym box = "int \<times> int \<times> int \<times> int"

text \<open>
  The operations a display object performs on its device: the e-paper panel's clear
  (\<open>_clear_display\<close>), full draw and partial draw, and the debug display's file save.
\<close>

datatype 'img hw_op =
    Clear_panel
  | Draw_full 'img
  | Draw_partial 'img box
  | Save_file 'img

text \<open>
  What the device and the imaging library answer: \<open>hw_fails\<close> tells which operations
  raise, \<open>diff_bbox img1 img2\<close> is \<open>ImageChops.difference(img1, img2).getbbox()\<close>
  (\<open>None\<close> when the images are equal).
\<close>

record 'img device =
  hw_fails :: "'img hw_op \<Rightarrow> bool"
  diff_bbox :: "'img \<Rightarrow> 'img \<Rightarrow> box option"

text \<open>
  \<open>EInkDisplay\<close>: its one piece of state is \<open>previous_image\<close>. \<open>hw_ops\<close> is an
  observation log, not a field of the class: every operation started on the device,
  oldest first.
\<close>

record 'img EInk =
  previous_image :: "'img option"
  hw_ops :: "'img hw_op list"

definition attempt :: "'img device \<Rightarrow> 'img hw_op \<Rightarrow> 'img EInk \<Rightarrow> 'img EInk \<times> error option" where
  "attempt dev op s =
     (s\<lparr>hw_ops := hw_ops s @ [op]\<rparr>,
      if hw_fails dev op then Some (Error ''hardware'') else None)"

definition clear_display :: "'img device \<Rightarrow> 'img EInk \<Rightarrow> 'img EInk \<times> error option" where
  "clear_display dev s = attempt dev Clear_panel s"

text \<open>\<open>EInkDisplay._update_display\<close>: the optional clear, then the full draw.\<close>

definition EInk_update_display ::
  "'img device \<Rightarrow> 'img EInk \<Rightarrow> 'img \<Rightarrow> bool \<Rightarrow> 'img EInk \<times> error option" where
  "EInk_update_display dev s img clear =
     (if clear then
        (case clear_display dev s of
           (s1, Some e) \<Rightarrow> (s1, Some e)
         | (s1, None) \<Rightarrow> attempt dev (Draw_full img) s1)
      else attempt dev (Draw_full img) s)"

definition update_partial_display ::
  "'img device \<Rightarrow> 'img EInk \<Rightarrow> 'img \<Rightarrow> box \<Rightarrow> 'img EInk \<times> error option" where
  "update_partial_display dev s img bx = attempt dev (Draw_partial img bx) s"

definition get_diff_box :: "'img device \<Rightarrow> 'img \<Rightarrow> 'img \<Rightarrow> box option" where
  "get_diff_box dev img1 img2 = diff_bbox dev img1 img2"

text \<open>The size test of \<open>EInkDisplay.update\<close>: a box wider or taller than 50 is dropped.\<close>

fun drop_large :: "box option \<Rightarrow> box option" where
  "drop_large None = None"
| "drop_large (Some (x0, y0, x1, y1)) =
     (if x1 - x0 > 50 \<or> y1 - y0 > 50 then None else Some (x0, y0, x1, y1))"

text \<open>
  \<open>EInkDisplay.update\<close>. \<open>previous_image\<close> is assigned only when the write did not
  raise; the exception is logged and re-raised.
\<close>

definition EInk_update ::
  "'img device \<Rightarrow> 'img EInk \<Rightarrow> 'img \<Rightarrow> bool \<Rightarrow> bool \<Rightarrow> 'img EInk \<times> error option" where
  "EInk_update dev s img partial clear =
     (let diff_box = (case previous_image s of
                        Some p \<Rightarrow> get_diff_box dev p img
                      | None \<Rightarrow> None);
          diff_box = drop_large diff_box;
          (s1, res) = (case diff_box of
                         Some bx \<Rightarrow> if partial then update_partial_display dev s img bx
                                    else EInk_update_display dev s img clear
                       | None \<Rightarrow> EInk_update_display dev s img clear)
      in case res of
           Some e \<Rightarrow> (s1, Some e)
         | None \<Rightarrow> (s1\<lparr>previous_image := Some img\<rparr>, None))"

text \<open>\<open>DebugDisplay.update\<close>: save the image; the flags are ignored.\<close>

definition Debug_update ::
  "'img device \<Rightarrow> 'img hw_op list \<Rightarrow> 'img \<Rightarrow> bool \<Rightarrow> bool \<Rightarrow> 'img hw_op list \<times> error option" where
  "Debug_update dev ops img partial clear =
     (ops @ [Save_file img],
      if hw_fails dev (Save_file img) then Some (Error ''save'') else None)"

datatype 'img backend =
    DebugDisplay "'img hw_op list"
  | EInkDisplay "'img EInk"

fun hw_display_update ::
  "'img device \<Rightarrow> 'img backend \<Rightarrow> 'img \<Rightarrow> bool \<Rightarrow> bool \<Rightarrow> 'img backend \<times> error option" where
  "hw_display_update dev (DebugDisplay ops) img partial clear =
     (case Debug_update dev ops img partial clear of (ops1, res) \<Rightarrow> (DebugDisplay ops1, res))"
| "hw_display_update dev (EInkDisplay s) img partial clear =
     (case EInk_update dev s img partial clear of (s1, res) \<Rightarrow> (EInkDisplay s1, res))"

section \<open>display.py: the render sink\<close>

text \<open>
  \<open>Display\<close> holds the one-element slot \<open>next_frame\<close> and the backend object
  (\<open>None\<close> until \<open>initialize\<close>). A frame is \<open>(img, partial, clear)\<close>.
  Two observation logs are added, neither a field of the class: \<open>update_calls\<close>
  records the arguments of every call of \<open>Display.update\<close>, \<open>write_calls\<close> the
  frames the writer loop handed to \<open>self.display.update\<close>, both oldest first.
\<close>

type_synonym 'img frame = "'img \<times> bool \<times> bool"

record 'img Display =
  backend :: "'img backend option"
  next_frame :: "'img frame option"
  update_calls :: "(pyval option \<times> TrainArrival list \<times> bool \<times> bool) list"
  write_calls :: "'img frame list"

text \<open>
  \<open>Display.update\<close>: render with \<open>getImage\<close> (which may raise), then overwrite the
  slot. On an exception the slot is untouched and the exception is re-raised
  (second component \<open>Some e\<close>).
\<close>

definition Display_update ::
  "(pyval option \<Rightarrow> TrainArrival list \<Rightarrow> error + 'img) \<Rightarrow> 'img Display \<Rightarrow>
   pyval option \<Rightarrow> TrainArrival list \<Rightarrow> bool \<Rightarrow> bool \<Rightarrow> 'img Display \<times> error option" where
  "Display_update getImage d weather trains partial clear =
     (let d1 = d\<lparr>update_calls := update_calls d @ [(weather, trains, partial, clear)]\<rparr> in
      case getImage weather trains of
        Inl e \<Rightarrow> (d1, Some e)
      | Inr img \<Rightarrow> (d1\<lparr>next_frame := Some (img, partial, clear)\<rparr>, None))"

text \<open>
  One iteration of the \<open>while True\<close> loop of \<open>Display._process_queue\<close>. It ends
  either in \<open>time.sleep(1)\<close> or in the exception handler, which logs and starts the
  next iteration at once; in the second case the slot keeps its frame.
\<close>

datatype tick = Slept | Logged error

definition process_queue :: "'img device \<Rightarrow> 'img Display \<Rightarrow> 'img Display \<times> tick" where
  "process_queue dev d =
     (case next_frame d of
        None \<Rightarrow> (d, Slept)
      | Some (img, partial, clear) \<Rightarrow>
          (case backend d of
             None \<Rightarrow> (d, Logged (Error ''AttributeError''))
           | Some b \<Rightarrow>
               (let d1 = d\<lparr>write_calls := write_calls d @ [(img, partial, clear)]\<rparr> in
                case hw_display_update dev b img partial clear of
                  (b1, Some e) \<Rightarrow> (d1\<lparr>backend := Some b1\<rparr>, Logged e)
                | (b1, None) \<Rightarrow> (d1\<lparr>backend := Some b1, next_frame := None\<rparr>, Slept))))"

section \<open>runner.py: the redraw scheduler\<close>

text \<open>
  What one handler invocation reads from the outside world: one field for each call
  site of \<open>time.time()\<close> and \<open>datetime.now()\<close>, and the renderer. Timestamps are
  reals.
\<close>

record 'img env =
  time_weather_change :: real
  time_weather_clear :: real
  time_now :: real
  minute_now :: nat
  time_cleared :: real
  time_updated :: real
  getImage :: "pyval option \<Rightarrow> TrainArrival list \<Rightarrow> error + 'img"

text \<open>\<open>DisplayState\<close> and \<open>Runner\<close> in one record.\<close>

record 'img Runner =
  weather_data :: "pyval option"
  train_data :: "TrainArrival list option"
  last_display_update :: real
  last_weather_change :: real
  last_display_clear :: real
  min_interval :: real
  previous_top_trains :: top_two
  display :: "'img Display"

definition Display_init :: "'img Display" where
  "Display_init = \<lparr>backend = None, next_frame = None, update_calls = [], write_calls = []\<rparr>"

definition Runner_init :: "'img Runner" where
  "Runner_init =
     \<lparr>weather_data = None, train_data = None, last_display_update = 0,
      last_weather_change = 0, last_display_clear = 0, min_interval = 1,
      previous_top_trains = (None, None), display = Display_init\<rparr>"

fun get_top_two_trains :: "TrainArrival list \<Rightarrow> top_two" where
  "get_top_two_trains [] = (None, None)"
| "get_top_two_trains [a] = (Some a, None)"
| "get_top_two_trains (a # b # rest) = (Some a, Some b)"

text \<open>The \<open>for prev, curr in zip(...)\<close> loop of \<open>_has_significant_change\<close>.\<close>

fun scan_pairs :: "(TrainArrival option \<times> TrainArrival option) list \<Rightarrow> bool" where
  "scan_pairs [] = False"
| "scan_pairs ((Some p, Some c) # rest) =
     (if train_id p \<noteq> train_id c \<or> minutes_until_arrival p \<noteq> minutes_until_arrival c
      then True else scan_pairs rest)"
| "scan_pairs ((pv, cu) # rest) =
     (if opt_ne pv cu then True else scan_pairs rest)"

definition has_significant_change :: "top_two \<Rightarrow> top_two \<Rightarrow> bool" where
  "has_significant_change previous current =
     (if fst previous = None \<and> fst current \<noteq> None then True
      else if fst current = None then True
      else scan_pairs [(fst previous, fst current), (snd previous, snd current)])"

text \<open>
  \<open>Runner._update_display\<close>. An exception of \<open>Display.update\<close> skips the three
  assignments; \<open>len(None)\<close> in \<open>_get_top_two_trains\<close> raises after the timestamps
  were written. Both are caught and logged.
\<close>

definition update_display :: "'img env \<Rightarrow> bool \<Rightarrow> 'img Runner \<Rightarrow> 'img Runner" where
  "update_display e clear r =
     (case Display_update (getImage e) (display r) (weather_data r)
             (case train_data r of None \<Rightarrow> [] | Some ts \<Rightarrow> ts) True clear of
        (d, Some err) \<Rightarrow> r\<lparr>display := d\<rparr>
      | (d, None) \<Rightarrow>
          (let r1 = r\<lparr>display := d\<rparr>;
               r2 = (if clear then r1\<lparr>last_display_clear := time_cleared e\<rparr> else r1);
               r3 = r2\<lparr>last_display_update := time_updated e\<rparr>
           in case train_data r of
                None \<Rightarrow> r3
              | Some ts \<Rightarrow> r3\<lparr>previous_top_trains := get_top_two_trains ts\<rparr>))"

text \<open>\<open>Runner._check_display_update\<close>, branch for branch.\<close>

definition check_display_update :: "'img env \<Rightarrow> bool \<Rightarrow> 'img Runner \<Rightarrow> 'img Runner" where
  "check_display_update e force r =
     (let now = time_now e in
      if \<not> truthy_opt (weather_data r) \<or> train_data r = None then r
      else if last_display_update r = 0 then update_display e False r
      else if force then update_display e False r
      else if now - last_display_clear r \<ge> 3500 then
        (if minute_now e = 0 then update_display e True r else r)
      else if now - last_display_update r \<ge> min_interval r then update_display e False r
      else r)"

definition handle_weather_update :: "'img env \<Rightarrow> pyval \<Rightarrow> 'img Runner \<Rightarrow> 'img Runner" where
  "handle_weather_update e w r =
     check_display_update e False
       (r\<lparr>weather_data := Some w,
          last_weather_change := time_weather_change e,
          last_display_clear := time_weather_clear e\<rparr>)"

definition handle_train_update :: "'img env \<Rightarrow> TrainArrival list \<Rightarrow> 'img Runner \<Rightarrow> 'img Runner" where
  "handle_train_update e trains r =
     (let r1 = r\<lparr>train_data := Some trains\<rparr>;
          current_top_trains = get_top_two_trains trains
      in if has_significant_change (previous_top_trains r1) current_top_trains
         then check_display_update e True r1
         else check_display_update e False r1)"

text \<open>
  The events that reach the scheduler: the two subscriber callbacks and the
  one-second heartbeat of \<open>Runner.run\<close>.
\<close>

datatype 'img event =
    Weather "'img env" pyval
  | Train "'img env" "TrainArrival list"
  | Heartbeat "'img env"

fun step :: "'img event \<Rightarrow> 'img Runner \<Rightarrow> 'img Runner" where
  "step (Weather e w) r = handle_weather_update e w r"
| "step (Train e ts) r = handle_train_update e ts r"
| "step (Heartbeat e) r = check_display_update e False r"

fun run_events :: "'img event list \<Rightarrow> 'img Runner \<Rightarrow> 'img Runner" where
  "run_events [] r = r"
| "run_events (ev # evs) r = run_events evs (step ev r)"

section \<open>subway\_service.py: the transit producer\<close>

text \<open>
  What a service does besides changing its own fields: the error and warning lines it
  logs, the subscriber callbacks it invokes with their argument, and its sleeps.
\<close>

datatype ('cb, 'a) effect =
    Log_error string
  | Log_warning string
  | Call 'cb 'a
  | Sleep int

text \<open>
  The feed objects of \<open>nyct_gtfs\<close>: a trip with its remaining stops. A \<open>datetime\<close>
  is the number of seconds since the epoch.
\<close>

record stop_time_update =
  stop_id :: string
  arrival :: "int option"

record trip =
  trip_id :: string
  trip_route_id :: string
  stop_time_updates :: "stop_time_update list"

text \<open>
  What one call of \<open>get_upcoming_trains\<close> reads from outside: the two
  \<open>NYCTFeed(...)\<close> constructions (the trips of the feed, or the exception), the
  wall clock, and \<open>strftime("%I:%M %p")\<close>.
\<close>

record feeds =
  feed_line_1 :: "error + trip list"
  feed_line_2 :: "error + trip list"
  now_seconds :: int
  clock_label :: "int \<Rightarrow> string"

text \<open>\<open>feed.filter_trips(headed_for_stop_id=...)\<close>: the trips that still stop there.\<close>

definition filter_trips :: "string \<Rightarrow> trip list \<Rightarrow> trip list" where
  "filter_trips station trips =
     filter (\<lambda>t. list_ex (\<lambda>u. stop_id u = station) (stop_time_updates t)) trips"

text \<open>\<open>round(s / 60)\<close> for a whole number of seconds: Python rounds halves to even.\<close>

definition round_div60 :: "int \<Rightarrow> int" where
  "round_div60 s =
     (let q = s div 60; r = s mod 60 in
      if r < 30 then q
      else if r > 30 then q + 1
      else if even q then q else q + 1)"

definition process_train :: "string \<Rightarrow> feeds \<Rightarrow> trip \<Rightarrow> TrainArrival option" where
  "process_train station fe train =
     (case find (\<lambda>u. stop_id u = station) (stop_time_updates train) of
        None \<Rightarrow> None
      | Some target_stop \<Rightarrow>
          (case arrival target_stop of
             None \<Rightarrow> None
           | Some arrival_dt \<Rightarrow>
               Some \<lparr>minutes_until_arrival = max 0 (round_div60 (arrival_dt - now_seconds fe)),
                     arrival_time = clock_label fe arrival_dt,
                     train_id = trip_id train,
                     route_id = trip_route_id train\<rparr>))"

text \<open>
  The body of the \<open>try\<close> block of \<open>SubwayService.get_upcoming_trains\<close>:
  \<open>Inl\<close> when something in it raises, otherwise the list it returns and the
  warnings it logs.
\<close>

definition upcoming_trains_body ::
  "string \<Rightarrow> feeds \<Rightarrow> error + (TrainArrival list \<times> string list)" where
  "upcoming_trains_body station fe =
     (case feed_line_1 fe of
        Inl e \<Rightarrow> Inl e
      | Inr feed_f \<Rightarrow>
          (case feed_line_2 fe of
             Inl e \<Rightarrow> Inl e
           | Inr feed_g \<Rightarrow>
               (let trains = filter_trips station feed_f @ filter_trips station feed_g in
                if trains = [] then Inr ([], [''No trains found in feed''])
                else
                  (let arrivals = List.map_filter (process_train station fe) trains;
                       warnings = map (\<lambda>t. ''Could not process train'')
                                    (filter (\<lambda>t. process_train station fe t = None) trains)
                   in Inr (sort_key minutes_until_arrival arrivals, warnings)))))"

text \<open>
  \<open>SubwayService.get_upcoming_trains\<close>: the \<open>except Exception\<close> handler logs the
  error and returns the empty list.
\<close>

definition get_upcoming_trains ::
  "string \<Rightarrow> feeds \<Rightarrow> TrainArrival list \<times> ('cb, TrainArrival list) effect list" where
  "get_upcoming_trains station fe =
     (case upcoming_trains_body station fe of
        Inl (Error m) \<Rightarrow> ([], [Log_error m])
      | Inr (trains, warnings) \<Rightarrow> (trains, map Log_warning warnings))"

record 'cb SubwayService =
  station_id :: string
  subscribers :: "'cb list"
  should_run :: bool
  current_trains :: "TrainArrival list"

definition SubwayService_init :: "string \<Rightarrow> 'cb SubwayService" where
  "SubwayService_init station =
     \<lparr>station_id = station, subscribers = [], should_run = False, current_trains = []\<rparr>"

text \<open>\<open>SubwayService.subscribe\<close>: an empty list is falsy, so it is not sent.\<close>

definition Subway_subscribe ::
  "'cb \<Rightarrow> 'cb SubwayService \<Rightarrow> 'cb SubwayService \<times> ('cb, TrainArrival list) effect list" where
  "Subway_subscribe callback s =
     (s\<lparr>subscribers := subscribers s @ [callback]\<rparr>,
      if current_trains s \<noteq> [] then [Call callback (current_trains s)] else [])"

text \<open>The \<open>for i in range(min(2, len(new_trains)))\<close> loop of \<open>_should_notify\<close>.\<close>

fun notify_scan :: "nat list \<Rightarrow> TrainArrival list \<Rightarrow> TrainArrival list \<Rightarrow> bool" where
  "notify_scan [] new_trains cur = False"
| "notify_scan (i # rest) new_trains cur =
     (if i \<ge> length cur then True
      else if \<not> ta_eq (new_trains ! i) (cur ! i) then True
      else notify_scan rest new_trains cur)"

definition should_notify :: "TrainArrival list \<Rightarrow> TrainArrival list \<Rightarrow> bool" where
  "should_notify cur new_trains =
     (if cur = [] \<or> new_trains = [] then True
      else notify_scan [0 ..< min 2 (length new_trains)] new_trains cur)"

definition notify_subscribers :: "'cb list \<Rightarrow> 'a \<Rightarrow> ('cb, 'a) effect list" where
  "notify_subscribers subs payload = map (\<lambda>cb. Call cb payload) subs"

text \<open>
  One iteration of \<open>SubwayService._update_loop\<close>. \<open>get_upcoming_trains\<close> never
  raises, so the loop's own handler is not reached from it.
\<close>

definition Subway_poll ::
  "int \<Rightarrow> feeds \<Rightarrow> 'cb SubwayService \<Rightarrow> 'cb SubwayService \<times> ('cb, TrainArrival list) effect list" where
  "Subway_poll interval_seconds fe s =
     (case get_upcoming_trains (station_id s) fe of
        (new_trains, logged) \<Rightarrow>
          if should_notify (current_trains s) new_trains
          then (s\<lparr>current_trains := new_trains\<rparr>,
                logged @ notify_subscribers (subscribers s) new_trains @ [Sleep interval_seconds])
          else (s, logged @ [Sleep interval_seconds]))"

text \<open>
  The \<open>while self._should_run\<close> loop, one list element for each iteration's view of
  the outside world.
\<close>

fun Subway_update_loop ::
  "int \<Rightarrow> feeds list \<Rightarrow> 'cb SubwayService \<Rightarrow> 'cb SubwayService \<times> ('cb, TrainArrival list) effect list" where
  "Subway_update_loop interval_seconds [] s = (s, [])"
| "Subway_update_loop interval_seconds (fe # rest) s =
     (if \<not> should_run s then (s, [])
      else (case Subway_poll interval_seconds fe s of
              (s1, eff) \<Rightarrow>
                (case Subway_update_loop interval_seconds rest s1 of
                   (s2, effs) \<Rightarrow> (s2, eff @ effs))))"

section \<open>weather\_service.py: the weather producer\<close>

text \<open>\<open>d[key]\<close>: \<open>KeyError\<close> on a missing key, \<open>TypeError\<close> on a non-dictionary.\<close>

fun getitem :: "pyval \<Rightarrow> string \<Rightarrow> error + pyval" where
  "getitem (PDict m) k =
     (case fmlookup m k of None \<Rightarrow> Inl (Error ''KeyError'') | Some v \<Rightarrow> Inr v)"
| "getitem _ k = Inl (Error ''TypeError'')"

text \<open>
  What one call of \<open>get_weather\<close> reads from outside and delegates: the HTTP
  response after \<open>raise_for_status()\<close> and \<open>json()\<close>, and the three extraction
  helpers past their first subscript (they read the wall clock and average floats,
  which the scheduling does not depend on).
\<close>

record weather_env =
  response :: "error + pyval"
  current_at :: "pyval \<Rightarrow> pyval \<Rightarrow> error + pyval"
  forecast_rows :: "pyval \<Rightarrow> pyval \<Rightarrow> error + pyval"
  commute_forecasts :: "pyval \<Rightarrow> error + pyval"

text \<open>\<open>_get_current_conditions\<close> starts by subscripting \<open>data['hourly']\<close>.\<close>

definition get_current_conditions :: "weather_env \<Rightarrow> pyval \<Rightarrow> error + pyval" where
  "get_current_conditions we data =
     (case getitem data ''hourly'' of Inl e \<Rightarrow> Inl e | Inr h \<Rightarrow> current_at we data h)"

text \<open>\<open>_get_forecast_days\<close> starts by subscripting \<open>data['daily']\<close>.\<close>

definition get_forecast_days :: "weather_env \<Rightarrow> pyval \<Rightarrow> error + pyval" where
  "get_forecast_days we data =
     (case getitem data ''daily'' of Inl e \<Rightarrow> Inl e | Inr dl \<Rightarrow> forecast_rows we data dl)"

record 'cb WeatherService =
  w_subscribers :: "'cb list"
  w_should_run :: bool
  current_data :: "pyval option"

definition WeatherService_init :: "'cb WeatherService" where
  "WeatherService_init = \<lparr>w_subscribers = [], w_should_run = False, current_data = None\<rparr>"

definition Weather_subscribe ::
  "'cb \<Rightarrow> 'cb WeatherService \<Rightarrow> 'cb WeatherService \<times> ('cb, pyval) effect list" where
  "Weather_subscribe callback s =
     (s\<lparr>w_subscribers := w_subscribers s @ [callback]\<rparr>,
      case current_data s of
        None \<Rightarrow> []
      | Some v \<Rightarrow> if truthy v then [Call callback v] else [])"

text \<open>
  \<open>WeatherService.get_weather\<close>: build the four-key dictionary, store the raw
  response in \<open>_current_data\<close>, return the dictionary. Any exception is logged and
  re-raised, with \<open>_current_data\<close> as it was.
\<close>

definition get_weather ::
  "weather_env \<Rightarrow> 'cb WeatherService \<Rightarrow> 'cb WeatherService \<times> (error + pyval)" where
  "get_weather we s =
     (case response we of
        Inl e \<Rightarrow> (s, Inl e)
      | Inr data \<Rightarrow>
          (case get_current_conditions we data of
             Inl e \<Rightarrow> (s, Inl e)
           | Inr cur \<Rightarrow>
               (case get_forecast_days we data of
                  Inl e \<Rightarrow> (s, Inl e)
                | Inr days \<Rightarrow>
                    (case getitem data ''hourly'' of
                       Inl e \<Rightarrow> (s, Inl e)
                     | Inr hourly \<Rightarrow>
                         (case commute_forecasts we data of
                            Inl e \<Rightarrow> (s, Inl e)
                          | Inr commutes \<Rightarrow>
                              (s\<lparr>current_data := Some data\<rparr>,
                               Inr (PDict (fmap_of_list
                                 [(''current'', cur),
                                  (''forecast'', PDict (fmap_of_list [(''forecastday'', days)])),
                                  (''hourly'', hourly),
                                  (''commute_forecasts'', commutes)]))))))))"

text \<open>One iteration of \<open>WeatherService._update_loop\<close>.\<close>

definition Weather_poll ::
  "int \<Rightarrow> weather_env \<Rightarrow> 'cb WeatherService \<Rightarrow> 'cb WeatherService \<times> ('cb, pyval) effect list" where
  "Weather_poll interval_seconds we s =
     (case get_weather we s of
        (s1, Inl (Error m)) \<Rightarrow>
          (s1, [Log_error m, Log_error ''Full traceback:'', Log_error m, Sleep interval_seconds])
      | (s1, Inr weather) \<Rightarrow>
          if Some weather \<noteq> current_data s1
          then (s1\<lparr>current_data := Some weather\<rparr>,
                notify_subscribers (w_subscribers s1) weather @ [Sleep interval_seconds])
          else (s1, [Sleep interval_seconds]))"

fun Weather_update_loop ::
  "int \<Rightarrow> weather_env list \<Rightarrow> 'cb WeatherService \<Rightarrow> 'cb WeatherService \<times> ('cb, pyval) effect list" where
  "Weather_update_loop interval_seconds [] s = (s, [])"
| "Weather_update_loop interval_seconds (we # rest) s =
     (if \<not> w_should_run s then (s, [])
      else (case Weather_poll interval_seconds we s of
              (s1, eff) \<Rightarrow>
                (case Weather_update_loop interval_seconds rest s1 of
                   (s2, effs) \<Rightarrow> (s2, eff @ effs))))"

section \<open>Sample values\<close>

text \<open>Concrete inputs on which the theorems below are exercised. Images are numbers.\<close>

definition train_A :: TrainArrival where
  "train_A = \<lparr>minutes_until_arrival = 5, arrival_time = ''10:05 AM'',
              train_id = ''A'', route_id = ''F''\<rparr>"

definition train_A_again :: TrainArrival where
  "train_A_again = \<lparr>minutes_until_arrival = 5, arrival_time = ''10:06 AM'',
                    train_id = ''A'', route_id = ''G''\<rparr>"

definition train_B :: TrainArrival where
  "train_B = \<lparr>minutes_until_arrival = 12, arrival_time = ''10:12 AM'',
              train_id = ''B'', route_id = ''G''\<rparr>"

definition sample_weather :: pyval where
  "sample_weather = PDict (fmap_of_list [(''current'', PInt 70)])"

text \<open>A renderer that succeeds (the image is the number of trains) and one that raises.\<close>

definition render_ok :: "pyval option \<Rightarrow> TrainArrival list \<Rightarrow> error + nat" where
  "render_ok w ts = Inr (length ts)"

definition render_fails :: "pyval option \<Rightarrow> TrainArrival list \<Rightarrow> error + nat" where
  "render_fails w ts = Inl (Error ''render'')"

text \<open>
  A reading of the outside world at the top of an hour, 4000 seconds after the
  epoch of the sample state, and one at half past.
\<close>

definition env_top_of_hour :: "nat env" where
  "env_top_of_hour =
     \<lparr>time_weather_change = 4000, time_weather_clear = 4000, time_now = 4000,
      minute_now = 0, time_cleared = 4001, time_updated = 4001, getImage = render_ok\<rparr>"

definition env_half_past :: "nat env" where
  "env_half_past = env_top_of_hour\<lparr>minute_now := 30\<rparr>"

definition env_render_fails :: "nat env" where
  "env_render_fails = env_top_of_hour\<lparr>getImage := render_fails\<rparr>"

text \<open>A scheduler that has drawn once, at time 100, and cleared last at time 50.\<close>

definition runner_drawn :: "nat Runner" where
  "runner_drawn =
     \<lparr>weather_data = Some sample_weather, train_data = Some [train_A, train_B],
      last_display_update = 100, last_weather_change = 50, last_display_clear = 50,
      min_interval = 1, previous_top_trains = (Some train_A, Some train_B),
      display = Display_init\<rparr>"

text \<open>
  A panel whose operations all succeed. Against any other image, image 2 differs in a
  box of 50 by 50 and every further image in a box 51 wide.
\<close>

definition sample_device :: "nat device" where
  "sample_device =
     \<lparr>hw_fails = (\<lambda>op. False),
      diff_bbox = (\<lambda>p n. if p = n then None
                          else if n = 2 then Some (10, 20, 60, 70)
                          else Some (10, 20, 61, 30))\<rparr>"

definition eink_drawn :: "nat EInk" where
  "eink_drawn = \<lparr>previous_image = Some 1, hw_ops = [Draw_full 1]\<rparr>"

definition display_ready :: "nat Display" where
  "display_ready = Display_init\<lparr>backend := Some (EInkDisplay eink_drawn)\<rparr>"

text \<open>A feed whose first request times out, and one that answers with no trips.\<close>

definition feeds_down :: feeds where
  "feeds_down =
     \<lparr>feed_line_1 = Inl (Error ''timeout''), feed_line_2 = Inr [],
      now_seconds = 0, clock_label = (\<lambda>t. ''10:05 AM'')\<rparr>"

definition feeds_empty :: feeds where
  "feeds_empty = feeds_down\<lparr>feed_line_1 := Inr []\<rparr>"

definition subway_cached :: "nat SubwayService" where
  "subway_cached =
     \<lparr>station_id = ''F21N'', subscribers = [0], should_run = True,
      current_trains = [train_A, train_B]\<rparr>"

text \<open>
  A weather response with the two keys the helpers subscript, helpers that answer
  constants, and the dictionary \<open>get_weather\<close> builds from them.
\<close>

definition raw_response :: pyval where
  "raw_response =
     PDict (fmap_of_list [(''hourly'', PDict fmempty), (''daily'', PDict fmempty)])"

definition weather_up :: weather_env where
  "weather_up =
     \<lparr>response = Inr raw_response,
      current_at = (\<lambda>d h. Inr (PInt 70)),
      forecast_rows = (\<lambda>d dl. Inr (PList [])),
      commute_forecasts = (\<lambda>d. Inr (PList []))\<rparr>"

definition shaped_response :: pyval where
  "shaped_response =
     PDict (fmap_of_list
       [(''current'', PInt 70),
        (''forecast'', PDict (fmap_of_list [(''forecastday'', PList [])])),
        (''hourly'', PDict fmempty),
        (''commute_forecasts'', PList [])])"

definition weather_cached :: "nat WeatherService" where
  "weather_cached =
     \<lparr>w_subscribers = [0], w_should_run = True, current_data = Some shaped_response\<rparr>"

section \<open>Properties of the redraw scheduler\<close>

lemma update_display_keeps_data:
  "weather_data (update_display e c r) = weather_data r \<and>
   train_data (update_display e c r) = train_data r"
  by (simp add: update_display_def Display_update_def Let_def split: sum.splits option.splits)

lemma check_display_update_keeps_data:
  "weather_data (check_display_update e f r) = weather_data r \<and>
   train_data (check_display_update e f r) = train_data r"
  by (simp add: check_display_update_def Let_def update_display_keeps_data)

lemma check_display_update_gate:
  "weather_data r = None \<or> train_data r = None \<Longrightarrow> check_display_update e f r = r"
  by (auto simp: check_display_update_def Let_def)

lemma step_unset:
  assumes "weather_data (step ev r) = None \<or> train_data (step ev r) = None"
  shows "(weather_data r = None \<or> train_data r = None) \<and> display (step ev r) = display r \<and>
         last_display_update (step ev r) = last_display_update r"
  using assms
  by (cases ev)
     (auto simp: handle_weather_update_def handle_train_update_def Let_def
        check_display_update_keeps_data check_display_update_gate)

lemma run_events_unset:
  "weather_data (run_events evs r) = None \<or> train_data (run_events evs r) = None \<Longrightarrow>
   (weather_data r = None \<or> train_data r = None) \<and> display (run_events evs r) = display r \<and>
   last_display_update (run_events evs r) = last_display_update r"
proof (induction evs arbitrary: r)
  case Nil
  then show ?case by simp
next
  case (Cons ev evs)
  from Cons.prems
  have later: "weather_data (run_events evs (step ev r)) = None \<or>
               train_data (run_events evs (step ev r)) = None"
    by simp
  from Cons.IH [OF later]
  have mid: "weather_data (step ev r) = None \<or> train_data (step ev r) = None"
    and same: "display (run_events evs (step ev r)) = display (step ev r)"
      "last_display_update (run_events evs (step ev r)) = last_display_update (step ev r)"
    by auto
  from step_unset [OF mid] same show ?case by simp
qed

text \<open>
  C2. The claim: a non-forced evaluation after the first redraw redraws (partial, no
  clear) whenever the hourly-clear condition does not hold and \<open>min_interval\<close> has
  passed, in particular when 3500 seconds have passed since the last clear and the
  minute is not 0. The code does not: once 3500 seconds have passed since the last
  clear, the \<open>return\<close> after the minute test ends the evaluation, so with a nonzero
  minute nothing is drawn, however long ago the last update was.
\<close>

theorem C2_no_redraw_past_3500:
  assumes "truthy_opt (weather_data r)" and "train_data r \<noteq> None"
    and "last_display_update r \<noteq> 0"
    and "time_now e - last_display_clear r \<ge> 3500" and "minute_now e \<noteq> 0"
  shows "check_display_update e False r = r"
  using assms by (simp add: check_display_update_def Let_def)

theorem C2_no_redraw_past_3500_witness:
  "time_now env_half_past - last_display_clear runner_drawn \<ge> 3500 \<and>
   minute_now env_half_past = 30 \<and>
   time_now env_half_past - last_display_update runner_drawn \<ge> min_interval runner_drawn \<and>
   check_display_update env_half_past False runner_drawn = runner_drawn"
  using C2_no_redraw_past_3500 [of runner_drawn env_half_past]
  by (simp add: env_half_past_def env_top_of_hour_def runner_drawn_def sample_weather_def)

text \<open>
  C4, as stated: top-two pairs that agree position by position are never a
  significant change, also when neither side has a train. The code answers
  \<open>True\<close> whenever the current pair has no first train.
\<close>

theorem C4_both_empty_counterexample:
  "\<not> opt_ne (fst (None, None)) (fst (None, None)) \<and>
   \<not> opt_ne (snd (None, None)) (snd (None, None)) \<and>
   has_significant_change (None, None) (None, None)"
  by (simp add: has_significant_change_def)

text \<open>
  C4, amended: when the current pair has a first train and the previous and current
  pairs agree position by position under the (train id, minutes) equality, the
  detector returns \<open>False\<close>.
\<close>

theorem C4_identical_top_two:
  assumes "fst current \<noteq> None"
    and "\<not> opt_ne (fst previous) (fst current)"
    and "\<not> opt_ne (snd previous) (snd current)"
  shows "\<not> has_significant_change previous current"
  using assms
  by (cases previous; cases current; cases "fst previous"; cases "snd previous";
      cases "fst current"; cases "snd current")
     (auto simp: has_significant_change_def ta_eq_def)

theorem C4_identical_top_two_witness:
  "fst (Some train_A_again, Some train_B) \<noteq> None \<and>
   \<not> opt_ne (fst (Some train_A, Some train_B)) (fst (Some train_A_again, Some train_B)) \<and>
   \<not> opt_ne (snd (Some train_A, Some train_B)) (snd (Some train_A_again, Some train_B)) \<and>
   train_A \<noteq> train_A_again \<and>
   \<not> has_significant_change (Some train_A, Some train_B) (Some train_A_again, Some train_B)"
  using C4_identical_top_two
    [of "(Some train_A_again, Some train_B)" "(Some train_A, Some train_B)"]
  by (simp add: train_A_def train_A_again_def ta_eq_def)

text \<open>
  C5. For every sequence of weather updates, train updates and heartbeats from the
  initial state: as long as the weather field or the train field has never been set,
  \<open>Display.update\<close> has not been called and the frame slot is empty.
\<close>

theorem C5_cold_start_gate:
  assumes "weather_data (run_events evs Runner_init) = None \<or>
           train_data (run_events evs Runner_init) = None"
  shows "update_calls (display (run_events evs (Runner_init :: 'img Runner))) = [] \<and>
         next_frame (display (run_events evs (Runner_init :: 'img Runner))) = None \<and>
         last_display_update (run_events evs (Runner_init :: 'img Runner)) = 0"
proof -
  let ?r = "run_events evs (Runner_init :: 'img Runner)"
  from run_events_unset [OF assms]
  have "display ?r = display (Runner_init :: 'img Runner)"
    and "last_display_update ?r = last_display_update (Runner_init :: 'img Runner)"
    by simp_all
  then show ?thesis by (simp add: Runner_init_def Display_init_def)
qed

theorem C5_cold_start_gate_witness:
  "train_data (run_events
       [Heartbeat env_top_of_hour, Weather env_top_of_hour sample_weather,
        Heartbeat env_half_past] (Runner_init :: nat Runner)) = None \<and>
   weather_data (run_events
       [Heartbeat env_top_of_hour, Weather env_top_of_hour sample_weather,
        Heartbeat env_half_past] (Runner_init :: nat Runner)) = Some sample_weather \<and>
   update_calls (display (run_events
       [Heartbeat env_top_of_hour, Weather env_top_of_hour sample_weather,
        Heartbeat env_half_past] (Runner_init :: nat Runner))) = []"
  using C5_cold_start_gate
    [of "[Heartbeat env_top_of_hour, Weather env_top_of_hour sample_weather,
          Heartbeat env_half_past]"]
    check_display_update_keeps_data
  by (simp add: handle_weather_update_def Runner_init_def check_display_update_gate)

text \<open>
  C6. Once both fields are set (as they are after the first redraw) an evaluation
  with \<open>force\<close> calls \<open>Display.update\<close> once, with \<open>partial=True\<close>
  and \<open>clear=False\<close>, whatever the clock and the minute are; \<open>last_display_clear\<close>
  is not touched, and when the renderer succeeds the queued frame carries
  \<open>(partial, clear) = (True, False)\<close>.
\<close>

theorem C6_forced_redraw:
  assumes "truthy_opt (weather_data r)" and "train_data r = Some ts"
  shows "update_calls (display (check_display_update e True r)) =
           update_calls (display r) @ [(weather_data r, ts, True, False)] \<and>
         last_display_clear (check_display_update e True r) = last_display_clear r \<and>
         (\<forall>img. getImage e (weather_data r) ts = Inr img \<longrightarrow>
            next_frame (display (check_display_update e True r)) = Some (img, True, False))"
  using assms
  by (auto simp: check_display_update_def update_display_def Display_update_def Let_def
           split: sum.splits option.splits)

theorem C6_forced_redraw_witness:
  "last_display_update runner_drawn = 100 \<and>
   time_now env_top_of_hour - last_display_clear runner_drawn \<ge> 3500 \<and>
   minute_now env_top_of_hour = 0 \<and>
   update_calls (display (check_display_update env_top_of_hour True runner_drawn)) =
     [(Some sample_weather, [train_A, train_B], True, False)] \<and>
   last_display_clear (check_display_update env_top_of_hour True runner_drawn) = 50 \<and>
   next_frame (display (check_display_update env_top_of_hour True runner_drawn)) =
     Some (2, True, False)"
  using C6_forced_redraw [of runner_drawn "[train_A, train_B]" env_top_of_hour]
  by (simp add: runner_drawn_def env_top_of_hour_def sample_weather_def render_ok_def
        Display_init_def)

text \<open>
  C10. When \<open>Display.update\<close> raises inside \<open>_update_display\<close> (the renderer
  fails), \<open>last_display_update\<close>, \<open>last_display_clear\<close> and the previous top two
  keep their values; so do the other fields of the state and the frame slot.
\<close>

theorem C10_failed_redraw_keeps_state:
  assumes "getImage e (weather_data r)
             (case train_data r of None \<Rightarrow> [] | Some ts \<Rightarrow> ts) = Inl err"
  shows "last_display_update (update_display e clear r) = last_display_update r \<and>
         last_display_clear (update_display e clear r) = last_display_clear r \<and>
         previous_top_trains (update_display e clear r) = previous_top_trains r \<and>
         last_weather_change (update_display e clear r) = last_weather_change r \<and>
         weather_data (update_display e clear r) = weather_data r \<and>
         train_data (update_display e clear r) = train_data r \<and>
         next_frame (display (update_display e clear r)) = next_frame (display r)"
  using assms by (simp add: update_display_def Display_update_def Let_def)

theorem C10_failed_redraw_keeps_state_witness:
  "last_display_update (update_display env_render_fails True runner_drawn) = 100 \<and>
   last_display_clear (update_display env_render_fails True runner_drawn) = 50 \<and>
   previous_top_trains (update_display env_render_fails True runner_drawn) =
     (Some train_A, Some train_B) \<and>
   next_frame (display (update_display env_render_fails True runner_drawn)) = None"
  using C10_failed_redraw_keeps_state [of env_render_fails runner_drawn "Error ''render''" True]
  by (simp add: runner_drawn_def env_render_fails_def env_top_of_hour_def render_fails_def
        Display_init_def)

section \<open>Properties of the displays\<close>

text \<open>
  C7. With a previously written bitmap and a difference box: when the box is at most
  50 wide and 50 high and \<open>partial\<close> is requested, the one operation started on the
  panel is the partial draw of exactly that box; when the box is wider or taller than
  50, the panel gets the full draw (after the clear, if one was requested), even
  though \<open>partial\<close> is requested.
\<close>

theorem C7_partial_only_for_small_box:
  assumes "previous_image s = Some p" and "diff_bbox dev p img = Some (x0, y0, x1, y1)"
  shows "(x1 - x0 \<le> 50 \<and> y1 - y0 \<le> 50 \<longrightarrow>
            hw_ops (fst (EInk_update dev s img True clear)) =
              hw_ops s @ [Draw_partial img (x0, y0, x1, y1)]) \<and>
         (x1 - x0 > 50 \<or> y1 - y0 > 50 \<longrightarrow>
            hw_ops (fst (EInk_update dev s img True clear)) =
              hw_ops s @ (if clear then
                            (if hw_fails dev Clear_panel then [Clear_panel]
                             else [Clear_panel, Draw_full img])
                          else [Draw_full img]))"
  using assms
  by (auto simp: EInk_update_def get_diff_box_def update_partial_display_def
        EInk_update_display_def clear_display_def attempt_def Let_def split: option.splits)

theorem C7_partial_only_for_small_box_witness:
  "hw_ops (fst (EInk_update sample_device eink_drawn 2 True False)) =
     [Draw_full 1, Draw_partial 2 (10, 20, 60, 70)] \<and>
   hw_ops (fst (EInk_update sample_device eink_drawn 3 True False)) =
     [Draw_full 1, Draw_full 3]"
  using C7_partial_only_for_small_box [of eink_drawn 1 sample_device 2 10 20 60 70 False]
        C7_partial_only_for_small_box [of eink_drawn 1 sample_device 3 10 20 61 30 False]
  by (simp add: eink_drawn_def sample_device_def)

text \<open>
  C8. Two frames are submitted to an initialised render sink, both rendered without
  error, and then the writer loop runs once. The second submission replaces the
  pending first frame; the writer calls the hardware display exactly once, with the
  second frame, so that the display object is left as that one write leaves it; and
  when that write succeeds the slot is empty, so that a further iteration sleeps
  without touching the hardware display.
\<close>

theorem C8_latest_frame_wins:
  assumes "render w1 t1 = Inr i1" and "render w2 t2 = Inr i2" and "backend d = Some b"
  shows "next_frame (fst (Display_update render
             (fst (Display_update render d w1 t1 p1 c1)) w2 t2 p2 c2))
           = Some (i2, p2, c2) \<and>
         backend (fst (process_queue dev (fst (Display_update render
             (fst (Display_update render d w1 t1 p1 c1)) w2 t2 p2 c2))))
           = Some (fst (hw_display_update dev b i2 p2 c2)) \<and>
         write_calls (fst (process_queue dev (fst (Display_update render
             (fst (Display_update render d w1 t1 p1 c1)) w2 t2 p2 c2))))
           = write_calls d @ [(i2, p2, c2)] \<and>
         (snd (hw_display_update dev b i2 p2 c2) = None \<longrightarrow>
            next_frame (fst (process_queue dev (fst (Display_update render
                (fst (Display_update render d w1 t1 p1 c1)) w2 t2 p2 c2)))) = None \<and>
            snd (process_queue dev (fst (process_queue dev
                (fst (Display_update render
                   (fst (Display_update render d w1 t1 p1 c1)) w2 t2 p2 c2))))) = Slept \<and>
            backend (fst (process_queue dev (fst (process_queue dev
                (fst (Display_update render
                   (fst (Display_update render d w1 t1 p1 c1)) w2 t2 p2 c2))))))
              = Some (fst (hw_display_update dev b i2 p2 c2)) \<and>
            write_calls (fst (process_queue dev (fst (process_queue dev
                (fst (Display_update render
                   (fst (Display_update render d w1 t1 p1 c1)) w2 t2 p2 c2))))))
              = write_calls d @ [(i2, p2, c2)])"
  using assms
  by (auto simp: Display_update_def process_queue_def Let_def split: prod.splits option.splits)

theorem C8_latest_frame_wins_witness:
  "next_frame (fst (Display_update render_ok
       (fst (Display_update render_ok display_ready (Some sample_weather) [] True True))
       (Some sample_weather) [train_A, train_B] True False))
     = Some (2, True, False) \<and>
   backend display_ready =
     Some (EInkDisplay \<lparr>previous_image = Some 1, hw_ops = [Draw_full 1]\<rparr>) \<and>
   backend (fst (process_queue sample_device (fst (Display_update render_ok
       (fst (Display_update render_ok display_ready (Some sample_weather) [] True True))
       (Some sample_weather) [train_A, train_B] True False))))
     = Some (EInkDisplay \<lparr>previous_image = Some 2,
               hw_ops = [Draw_full 1, Draw_partial 2 (10, 20, 60, 70)]\<rparr>) \<and>
   write_calls (fst (process_queue sample_device (fst (Display_update render_ok
       (fst (Display_update render_ok display_ready (Some sample_weather) [] True True))
       (Some sample_weather) [train_A, train_B] True False))))
     = [(2, True, False)] \<and>
   next_frame (fst (process_queue sample_device (fst (Display_update render_ok
       (fst (Display_update render_ok display_ready (Some sample_weather) [] True True))
       (Some sample_weather) [train_A, train_B] True False))))
     = None \<and>
   backend (fst (process_queue sample_device (fst (process_queue sample_device
       (fst (Display_update render_ok
          (fst (Display_update render_ok display_ready (Some sample_weather) [] True True))
          (Some sample_weather) [train_A, train_B] True False))))))
     = Some (EInkDisplay \<lparr>previous_image = Some 2,
               hw_ops = [Draw_full 1, Draw_partial 2 (10, 20, 60, 70)]\<rparr>)"
  using C8_latest_frame_wins
    [where render = render_ok and ?w1.0 = "Some sample_weather" and ?t1.0 = "[]"
       and ?i1.0 = 0 and ?w2.0 = "Some sample_weather" and ?t2.0 = "[train_A, train_B]"
       and ?i2.0 = 2 and d = display_ready and b = "EInkDisplay eink_drawn"
       and ?p1.0 = True and ?c1.0 = True and ?p2.0 = True and ?c2.0 = False
       and dev = sample_device]
  by (simp add: render_ok_def display_ready_def Display_init_def eink_drawn_def
        sample_device_def EInk_update_def get_diff_box_def update_partial_display_def
        attempt_def)

section \<open>Properties of the producers\<close>

lemma shaped_differs_from_raw:
  assumes "getitem data ''daily'' = Inr dl"
  shows "PDict (fmap_of_list [(''current'', a), (''forecast'', b), (''hourly'', c),
            (''commute_forecasts'', d)]) \<noteq> data"
proof
  assume eq: "PDict (fmap_of_list [(''current'', a), (''forecast'', b), (''hourly'', c),
            (''commute_forecasts'', d)]) = data"
  from assms eq [symmetric] show False by (simp split: option.splits)
qed

text \<open>
  C1. The claim: when the fetch of upcoming trains fails, the failure is logged, the
  loop goes on at the same interval, the cached list is left as it was and the
  subscribers are not notified with blanked data. The code logs and sleeps as claimed,
  but \<open>get_upcoming_trains\<close> turns the exception into the empty list, which
  \<open>_should_notify\<close> always accepts: the cache becomes empty and every subscriber is
  called with the empty list.
\<close>

theorem C1_fetch_failure_blanks_cache:
  assumes "upcoming_trains_body (station_id s) fe = Inl (Error m)"
  shows "Subway_poll n fe s =
           (s\<lparr>current_trains := []\<rparr>,
            [Log_error m] @ notify_subscribers (subscribers s) [] @ [Sleep n])"
  using assms by (simp add: Subway_poll_def get_upcoming_trains_def should_notify_def)

theorem C1_fetch_failure_blanks_cache_witness:
  "current_trains subway_cached = [train_A, train_B] \<and>
   Subway_poll 5 feeds_down subway_cached =
     (subway_cached\<lparr>current_trains := []\<rparr>, [Log_error ''timeout'', Call 0 [], Sleep 5])"
  using C1_fetch_failure_blanks_cache [of subway_cached feeds_down "''timeout''" 5]
  by (simp add: upcoming_trains_body_def feeds_down_def subway_cached_def
        notify_subscribers_def)

text \<open>
  C3. The claim: a successful weather poll notifies exactly when the new snapshot
  differs from the last emitted one. The code notifies on every successful poll:
  \<open>get_weather\<close> overwrites \<open>_current_data\<close> with the raw response before it
  returns, and the loop compares the returned dictionary with that raw response,
  which always has the key \<open>daily\<close> that the returned dictionary lacks.
\<close>

theorem C3_every_successful_poll_notifies:
  assumes "snd (get_weather we s) = Inr weather"
  shows "Weather_poll n we s =
           (s\<lparr>current_data := Some weather\<rparr>,
            notify_subscribers (w_subscribers s) weather @ [Sleep n])"
  using assms
  by (auto simp: Weather_poll_def get_weather_def get_forecast_days_def
        shaped_differs_from_raw split: sum.splits)

theorem C3_every_successful_poll_notifies_witness:
  "current_data weather_cached = Some shaped_response \<and>
   snd (get_weather weather_up weather_cached) = Inr shaped_response \<and>
   Weather_poll 300 weather_up weather_cached =
     (weather_cached, [Call 0 shaped_response, Sleep 300])"
  using C3_every_successful_poll_notifies [of weather_up weather_cached shaped_response 300]
  by (simp add: get_weather_def get_current_conditions_def get_forecast_days_def
        weather_up_def raw_response_def shaped_response_def weather_cached_def
        notify_subscribers_def)

text \<open>
  C9, as stated: a subscriber that joins after a successful fetch is called at once
  with the cached value, also when that value is the empty train list. After a fetch
  that succeeds with no trains, \<open>SubwayService.subscribe\<close> calls nobody.
\<close>

theorem C9_empty_list_counterexample:
  "upcoming_trains_body ''F21N'' feeds_empty = Inr ([], [''No trains found in feed'']) \<and>
   current_trains (fst (Subway_poll 5 feeds_empty
       (SubwayService_init ''F21N'' :: nat SubwayService))) = [] \<and>
   snd (Subway_subscribe 1 (fst (Subway_poll 5 feeds_empty
       (SubwayService_init ''F21N'' :: nat SubwayService)))) = []"
  by (simp add: upcoming_trains_body_def feeds_empty_def feeds_down_def filter_trips_def
        Subway_poll_def get_upcoming_trains_def should_notify_def SubwayService_init_def
        Subway_subscribe_def)

text \<open>
  C9, amended: the transit producer calls a new subscriber at once, exactly once and
  with the cached list, when that list is not empty, and not at all when it is empty;
  the weather producer calls a new subscriber at once, exactly once and with the
  cached snapshot, after any successful poll.
\<close>

theorem C9_late_join:
  shows "snd (Subway_subscribe cb s) =
           (if current_trains s = [] then [] else [Call cb (current_trains s)]) \<and>
         (snd (get_weather we ws) = Inr weather \<longrightarrow>
            snd (Weather_subscribe cb' (fst (Weather_poll n we ws))) = [Call cb' weather])"
  by (auto simp: Subway_subscribe_def Weather_subscribe_def Weather_poll_def get_weather_def
        get_forecast_days_def shaped_differs_from_raw split: sum.splits)

theorem C9_late_join_witness:
  "snd (Subway_subscribe 7 subway_cached) = [Call 7 [train_A, train_B]] \<and>
   snd (get_weather weather_up (WeatherService_init :: nat WeatherService)) =
     Inr shaped_response \<and>
   snd (Weather_subscribe 7 (fst (Weather_poll 300 weather_up
       (WeatherService_init :: nat WeatherService)))) = [Call 7 shaped_response]"
  using C9_late_join
    [where s = subway_cached and cb = 7 and we = weather_up
       and ws = "WeatherService_init :: nat WeatherService" and weather = shaped_response
       and cb' = 7 and n = 300]
  by (simp add: subway_cached_def get_weather_def get_current_conditions_def
        get_forecast_days_def weather_up_def raw_response_def shaped_response_def
        WeatherService_init_def)

end
